theory Spec2Isabelle
  imports Complex_Main
begin

section \<open>Arrays and errors\<close>

text \<open>
  The two modules compute on \<open>jax.numpy\<close> arrays. In this first reading an array
  element is a real number: rounding and the non-finite values of the
  floating-point formats (\<open>inf\<close>, \<open>nan\<close>) are not part of it. The properties that
  depend on those values are stated on a second reading, on float32 values, further
  below. A rank-1 array is a list, a rank-2 array a list of rows; the rank assertions
  of the source (\<open>assert Adv.ndim == 1\<close>, \<open>assert Q_s_next.ndim == 2\<close>) hold by
  typing. What the source raises is a value of \<open>error\<close>.
\<close>

datatype error = NotImplementedError | TypeError | ValueError

definition bind_result :: "error + 'a \<Rightarrow> ('a \<Rightarrow> error + 'b) \<Rightarrow> error + 'b" where
  "bind_result m k = (case m of Inl e \<Rightarrow> Inl e | Inr x \<Rightarrow> k x)"

text \<open>
  An elementwise binary operation of \<open>jax.numpy\<close> on two rank-1 arrays: equal shapes
  are combined pointwise, a shape \<open>(1,)\<close> is broadcast against the other, and any
  other pair of shapes raises \<open>TypeError\<close> (incompatible shapes for broadcasting).
\<close>

definition broadcast2 ::
  "('v \<Rightarrow> 'v \<Rightarrow> 'v) \<Rightarrow> 'v list \<Rightarrow> 'v list \<Rightarrow> error + 'v list" where
  "broadcast2 f xs ys =
     (if length xs = length ys then Inr (map2 f xs ys)
      else if length xs = 1 then Inr (map (f (hd xs)) ys)
      else if length ys = 1 then Inr (map (\<lambda>x. f x (hd ys)) xs)
      else Inl TypeError)"

definition jnp_add :: "real list \<Rightarrow> real list \<Rightarrow> error + real list" where
  "jnp_add = broadcast2 (\<lambda>x y. x + y)"

definition jnp_sub :: "real list \<Rightarrow> real list \<Rightarrow> error + real list" where
  "jnp_sub = broadcast2 (\<lambda>x y. x - y)"

definition jnp_mul :: "real list \<Rightarrow> real list \<Rightarrow> error + real list" where
  "jnp_mul = broadcast2 (\<lambda>x y. x * y)"

definition jnp_minimum :: "real list \<Rightarrow> real list \<Rightarrow> error + real list" where
  "jnp_minimum = broadcast2 min"

definition jnp_exp :: "real list \<Rightarrow> real list" where
  "jnp_exp xs = map exp xs"

text \<open>\<open>jnp.clip(x, a_min, a_max)\<close> is \<open>minimum(a_max, maximum(x, a_min))\<close>.\<close>

definition clip :: "real \<Rightarrow> real \<Rightarrow> real \<Rightarrow> real" where
  "clip x a_min a_max = min a_max (max x a_min)"

definition jnp_clip :: "real list \<Rightarrow> real \<Rightarrow> real \<Rightarrow> real list" where
  "jnp_clip xs a_min a_max = map (\<lambda>x. clip x a_min a_max) xs"

text \<open>
  \<open>jnp.mean\<close> of a rank-1 array. On an empty array \<open>jnp.mean\<close> is \<open>nan\<close>, which has
  no real value (the quotient below is \<open>0\<close> there): statements about a mean are made
  for non-empty arrays.
\<close>

definition jnp_mean :: "real list \<Rightarrow> real" where
  "jnp_mean xs = sum_list xs / real (length xs)"

text \<open>
  \<open>jnp.max(Q, axis=1)\<close> of a rank-2 array: the maximum of each row. A row without
  entries (no action) raises \<open>ValueError\<close> (zero-size array to reduction operation).
\<close>

fun row_max :: "real list \<Rightarrow> error + real" where
  "row_max [] = Inl ValueError"
| "row_max (x # xs) = Inr (foldl max x xs)"

fun jnp_max_axis1 :: "real list list \<Rightarrow> error + real list" where
  "jnp_max_axis1 [] = Inr []"
| "jnp_max_axis1 (r # rs) =
     bind_result (row_max r) (\<lambda>m.
       bind_result (jnp_max_axis1 rs) (\<lambda>ms. Inr (m # ms)))"

section \<open>Random keys\<close>

text \<open>
  \<open>hk.PRNGSequence(rng)\<close> holds a key and \<open>next\<close> splits it: one half is handed out,
  the other kept. The splitting function of the random engine is a parameter
  \<open>split\<close>, returning the key handed out and the key kept.
\<close>

definition PRNGSequence :: "'r \<Rightarrow> 'r" where
  "PRNGSequence rng = rng"

definition next_rng :: "('r \<Rightarrow> 'r \<times> 'r) \<Rightarrow> 'r \<Rightarrow> 'r \<times> 'r" where
  "next_rng split rngs = split rngs"

section \<open>Transition batches\<close>

text \<open>
  A transition batch is unpacked by the source into eight positions, of which the
  first six are \<open>S, A, logP, Rn, In, S_next\<close>; the last two are not read.
\<close>

record ('s, 'a, 'v, 'e1, 'e2) TransitionBatch =
  S :: 's
  A :: 'a
  logP :: "'v list"
  Rn :: "'v list"
  In :: "'v list"
  S_next :: 's
  extra1 :: 'e1
  extra2 :: 'e2

section \<open>The PPO-clip policy objective\<close>

type_synonym addr = nat
type_synonym hparams = "string \<rightharpoonup> real"

text \<open>
  The policy \<open>self.pi\<close>: its forward pass \<open>apply_func\<close>, its action preprocessor and
  the log-probability of its distribution family \<open>proba_dist.log_proba\<close>.
\<close>

record ('p, 'st, 'r, 's, 'a, 'd, 'x, 'v) Policy =
  apply_func :: "'p \<Rightarrow> 'st \<Rightarrow> 'r \<Rightarrow> 's \<Rightarrow> bool \<Rightarrow> 'd \<times> 'st"
  action_preprocessor_func :: "'p \<Rightarrow> 'r \<Rightarrow> 'a \<Rightarrow> 'x"
  log_proba :: "'d \<Rightarrow> 'x \<Rightarrow> 'v list"

text \<open>
  A policy regularizer. \<open>hyperparams\<close> is what
  \<open>getattr(self.regularizer, 'hyperparams', {})\<close> finds on the object: no such
  attribute; an attribute that stores a reference to a dict object of the store; or
  a property whose body builds a new dict with the given entries on every access
  (as in \<open>return {'beta': self.beta}\<close>).
\<close>

datatype hyperparams_attr = NoAttribute | Stored addr | Computed hparams

record ('d, 'v) PolicyRegularizer =
  hyperparams :: hyperparams_attr
  reg_apply_func :: "'d \<Rightarrow> hparams \<Rightarrow> 'v list"
  metrics_func :: "'d \<Rightarrow> hparams \<Rightarrow> (string \<rightharpoonup> 'v)"

record ('p, 'st, 'r, 's, 'a, 'd, 'x, 'v) PPOClip =
  pi_policy :: "('p, 'st, 'r, 's, 'a, 'd, 'x, 'v) Policy"
  regularizer :: "('d, 'v) PolicyRegularizer option"
  epsilon :: real

definition objective_func ::
  "('r \<Rightarrow> 'r \<times> 'r) \<Rightarrow> ('p, 'st, 'r, 's, 'a, 'd, 'x, real) PPOClip \<Rightarrow> 'p \<Rightarrow> 'st \<Rightarrow> 'r \<Rightarrow>
   ('s, 'a, real, 'e1, 'e2) TransitionBatch \<Rightarrow> real list \<Rightarrow> real \<Rightarrow>
   error + (real list \<times> ('d \<times> real list \<times> 'st))" where
  "objective_func split self params state rng transition_batch Adv eps =
     (let rngs = PRNGSequence rng;
          (k1, rngs1) = next_rng split rngs;
          (dist_params, state_new) =
             apply_func (pi_policy self) params state k1 (S transition_batch) True;
          (k2, rngs2) = next_rng split rngs1;
          X_a = action_preprocessor_func (pi_policy self) params k2 (A transition_batch);
          log_pi = log_proba (pi_policy self) dist_params X_a
      in bind_result (jnp_sub log_pi (logP transition_batch)) (\<lambda>d.
           let ratio = jnp_exp d;
               ratio_clip = jnp_clip ratio (1 - eps) (1 + eps)
           in bind_result (jnp_mul Adv ratio) (\<lambda>bare.
                bind_result (jnp_mul Adv ratio_clip) (\<lambda>clipped.
                  bind_result (jnp_minimum bare clipped) (\<lambda>objective.
                    Inr (objective, (dist_params, log_pi, state_new)))))))"

definition PPOClip_loss_func ::
  "('r \<Rightarrow> 'r \<times> 'r) \<Rightarrow> ('p, 'st, 'r, 's, 'a, 'd, 'x, real) PPOClip \<Rightarrow> 'p \<Rightarrow> 'st \<Rightarrow> 'r \<Rightarrow>
   ('s, 'a, real, 'e1, 'e2) TransitionBatch \<Rightarrow> real list \<Rightarrow> real \<Rightarrow> hparams \<Rightarrow>
   error + (real \<times> (real \<times> real \<times> 'd \<times> real list \<times> 'st))" where
  "PPOClip_loss_func split self params state rng transition_batch Adv eps reg_hparams =
     bind_result (objective_func split self params state rng transition_batch Adv eps)
       (\<lambda>(objective, (dist_params, log_pi, state_new)).
          let loss_bare = - jnp_mean objective;
              loss = (case regularizer self of
                        None \<Rightarrow> loss_bare
                      | Some reg \<Rightarrow>
                          loss_bare + jnp_mean (reg_apply_func reg dist_params reg_hparams))
          in Inr (loss, (loss, loss_bare, dist_params, log_pi, state_new)))"

text \<open>
  The per-transition objective of the class documentation,
  \<open>J = min(\<rho> Adv, \<rho>_clip Adv)\<close>: one entry of the array computed by
  \<open>jnp.minimum(Adv * ratio, Adv * ratio_clip)\<close>.
\<close>

definition per_transition_objective :: "real \<Rightarrow> real \<Rightarrow> real \<Rightarrow> real" where
  "per_transition_objective adv ratio eps =
     min (adv * ratio) (adv * clip ratio (1 - eps) (1 + eps))"

text \<open>
  The first half of \<open>objective_func\<close> on its own: the forward pass of the current
  policy with its two random draws, up to \<open>log_pi\<close>.
\<close>

definition forward_pass ::
  "('r \<Rightarrow> 'r \<times> 'r) \<Rightarrow> ('p, 'st, 'r, 's, 'a, 'd, 'x, 'v) PPOClip \<Rightarrow> 'p \<Rightarrow> 'st \<Rightarrow> 'r \<Rightarrow>
   ('s, 'a, 'v, 'e1, 'e2) TransitionBatch \<Rightarrow> 'd \<times> 'v list \<times> 'st" where
  "forward_pass split self params state rng transition_batch =
     (let rngs = PRNGSequence rng;
          (k1, rngs1) = next_rng split rngs;
          (dist_params, state_new) =
             apply_func (pi_policy self) params state k1 (S transition_batch) True;
          (k2, rngs2) = next_rng split rngs1;
          X_a = action_preprocessor_func (pi_policy self) params k2 (A transition_batch);
          log_pi = log_proba (pi_policy self) dist_params X_a
      in (dist_params, log_pi, state_new))"


subsection \<open>The \<open>hyperparams\<close> property\<close>

text \<open>
  Python dicts are objects that are shared by reference, so the store is explicit:
  \<open>dicts\<close> maps the address of each allocated dict to its contents and \<open>fresh\<close> is
  the next unused address.
\<close>

record heap =
  dicts :: "addr \<rightharpoonup> hparams"
  fresh :: addr

text \<open>A dict display \<open>{...}\<close>: a new dict object with the given entries.\<close>

definition new_dict :: "hparams \<Rightarrow> heap \<Rightarrow> addr \<times> heap" where
  "new_dict d h = (fresh h, h\<lparr>dicts := (dicts h)(fresh h \<mapsto> d), fresh := Suc (fresh h)\<rparr>)"

definition dict_setitem :: "addr \<Rightarrow> string \<Rightarrow> real \<Rightarrow> heap \<Rightarrow> heap" where
  "dict_setitem a k v h =
     h\<lparr>dicts := (dicts h)(a \<mapsto> (case dicts h a of None \<Rightarrow> [k \<mapsto> v] | Some d \<Rightarrow> d(k \<mapsto> v)))\<rparr>"

text \<open>
  \<open>getattr(self.regularizer, 'hyperparams', dflt)\<close>: the default when
  \<open>self.regularizer\<close> is \<open>None\<close> or has no such attribute; the stored reference;
  or the result of running the property, a new dict.
\<close>

definition getattr_hyperparams ::
  "('d, 'v) PolicyRegularizer option \<Rightarrow> addr \<Rightarrow> heap \<Rightarrow> addr \<times> heap" where
  "getattr_hyperparams reg dflt h =
     (case reg of
        None \<Rightarrow> (dflt, h)
      | Some r \<Rightarrow>
          (case hyperparams r of
             NoAttribute \<Rightarrow> (dflt, h)
           | Stored a \<Rightarrow> (a, h)
           | Computed d \<Rightarrow> new_dict d h))"

text \<open>
  The property \<open>PPOClip.hyperparams\<close>. The default \<open>{}\<close> is an argument of \<open>getattr\<close>
  and is allocated on every read; the result is the reference that \<open>getattr\<close>
  returned, after \<open>hparams['epsilon'] = self.epsilon\<close>.
\<close>

definition PPOClip_hyperparams ::
  "('p, 'st, 'r, 's, 'a, 'd, 'x, real) PPOClip \<Rightarrow> heap \<Rightarrow> addr \<times> heap" where
  "PPOClip_hyperparams self h =
     (let (dflt, h1) = new_dict Map.empty h;
          (hparams, h2) = getattr_hyperparams (regularizer self) dflt h1;
          h3 = dict_setitem hparams ''epsilon'' (epsilon self) h2
      in (hparams, h3))"

text \<open>
  The entries that a read of \<open>regularizer.hyperparams\<close> shows in a given store: those
  of the stored dict, or those the property builds.
\<close>

definition regularizer_hyperparams ::
  "('d, 'v) PolicyRegularizer \<Rightarrow> heap \<Rightarrow> hparams option" where
  "regularizer_hyperparams reg h =
     (case hyperparams reg of
        NoAttribute \<Rightarrow> None
      | Stored a \<Rightarrow> dicts h a
      | Computed d \<Rightarrow> Some d)"

text \<open>Every allocated address lies below \<open>fresh\<close>.\<close>

definition heap_ok :: "heap \<Rightarrow> bool" where
  "heap_ok h = (\<forall>a \<in> dom (dicts h). a < fresh h)"

section \<open>The Q-learning TD objective\<close>

text \<open>
  A q-function: the flag for a discrete action space, \<open>apply_func_type1\<close> (the value
  of one recorded action per transition) and \<open>apply_func_type2\<close> (one value per
  action and transition).
\<close>

record ('p, 'st, 'r, 's, 'a, 'v) Q =
  action_space_is_discrete :: bool
  apply_func_type1 :: "'p \<Rightarrow> 'st \<Rightarrow> 'r \<Rightarrow> 's \<Rightarrow> 'a \<Rightarrow> bool \<Rightarrow> 'v list \<times> 'st"
  apply_func_type2 :: "'p \<Rightarrow> 'st \<Rightarrow> 'r \<Rightarrow> 's \<Rightarrow> bool \<Rightarrow> 'v list list \<times> 'st"

text \<open>
  The attributes of a \<open>QLearning\<close> object. The value transform is a pair of scalar
  functions \<open>(f, f_inv)\<close>, applied to an array entry by entry.
\<close>

record ('p, 'st, 'r, 's, 'a, 'v) QLearning =
  q :: "('p, 'st, 'r, 's, 'a, 'v) Q"
  q_targ :: "('p, 'st, 'r, 's, 'a, 'v) Q"
  loss_function :: "'v list \<Rightarrow> 'v list \<Rightarrow> 'v"
  value_transform :: "('v \<Rightarrow> 'v) \<times> ('v \<Rightarrow> 'v)"

text \<open>
  Modelled from the spec: \<open>BaseTD.__init__\<close> (\<open>td_learning/_base.py\<close>) is not among the
  sources. It stores the four attributes, with the defaults of the class documentation
  and of the spec: \<open>q_targ = q\<close> when left unspecified, the Huber loss (a parameter
  \<open>huber\<close>, of \<open>coax.value_losses\<close>) and the identity pair as value transform. It
  raises nothing.
\<close>

definition BaseTD_init ::
  "(real list \<Rightarrow> real list \<Rightarrow> real) \<Rightarrow> ('p, 'st, 'r, 's, 'a, real) Q \<Rightarrow>
   ('p, 'st, 'r, 's, 'a, real) Q option \<Rightarrow> (real list \<Rightarrow> real list \<Rightarrow> real) option \<Rightarrow>
   ((real \<Rightarrow> real) \<times> (real \<Rightarrow> real)) option \<Rightarrow> ('p, 'st, 'r, 's, 'a, real) QLearning" where
  "BaseTD_init huber qf q_targ_arg loss_function_arg value_transform_arg =
     \<lparr>q = qf,
      q_targ = (case q_targ_arg of None \<Rightarrow> qf | Some t \<Rightarrow> t),
      loss_function = (case loss_function_arg of None \<Rightarrow> huber | Some l \<Rightarrow> l),
      value_transform =
        (case value_transform_arg of None \<Rightarrow> (\<lambda>x. x, \<lambda>x. x) | Some vt \<Rightarrow> vt)\<rparr>"

text \<open>
  \<open>QLearning.__init__\<close>: the check of the action space comes first; \<open>_init_funcs\<close>
  only defines the closures below and evaluates nothing.
\<close>

definition QLearning_init ::
  "(real list \<Rightarrow> real list \<Rightarrow> real) \<Rightarrow> ('p, 'st, 'r, 's, 'a, real) Q \<Rightarrow>
   ('p, 'st, 'r, 's, 'a, real) Q option \<Rightarrow> (real list \<Rightarrow> real list \<Rightarrow> real) option \<Rightarrow>
   ((real \<Rightarrow> real) \<times> (real \<Rightarrow> real)) option \<Rightarrow> error + ('p, 'st, 'r, 's, 'a, real) QLearning" where
  "QLearning_init huber qf q_targ_arg loss_function_arg value_transform_arg =
     (if \<not> action_space_is_discrete qf then Inl NotImplementedError
      else Inr (BaseTD_init huber qf q_targ_arg loss_function_arg value_transform_arg))"

definition target ::
  "('p, 'st, 'r, 's, 'a, real) QLearning \<Rightarrow> 'p \<Rightarrow> 'st \<Rightarrow> 'r \<Rightarrow> real list \<Rightarrow> real list \<Rightarrow> 's \<Rightarrow>
   error + real list" where
  "target self params state rng Rn_b In_b S_next_b =
     (let (f, f_inv) = value_transform self;
          (Q_s_next, _) = apply_func_type2 (q_targ self) params state rng S_next_b False
      in bind_result (jnp_max_axis1 Q_s_next) (\<lambda>Q_sa_next.
           bind_result (jnp_mul In_b (map f_inv Q_sa_next)) (\<lambda>boot.
             bind_result (jnp_add Rn_b boot) (\<lambda>g. Inr (map f g)))))"

definition QLearning_loss_func ::
  "('r \<Rightarrow> 'r \<times> 'r) \<Rightarrow> ('p, 'st, 'r, 's, 'a, real) QLearning \<Rightarrow> 'p \<Rightarrow> 'p \<Rightarrow> 'st \<Rightarrow> 'r \<Rightarrow>
   ('s, 'a, real, 'e1, 'e2) TransitionBatch \<Rightarrow>
   error + (real \<times> (real \<times> real list \<times> real list \<times> 's \<times> 'a \<times> 'st))" where
  "QLearning_loss_func split self params target_params state rng transition_batch =
     (let rngs = PRNGSequence rng;
          (k1, rngs1) = next_rng split rngs
      in bind_result
           (target self target_params state k1 (Rn transition_batch) (In transition_batch)
              (S_next transition_batch))
           (\<lambda>G. let (k2, rngs2) = next_rng split rngs1;
                    (Q, state_new) =
                       apply_func_type1 (q self) params state k2 (S transition_batch)
                         (A transition_batch) True;
                    loss = loss_function self G Q
                in Inr (loss, (loss, G, Q, S transition_batch, A transition_batch,
                          state_new))))"

definition td_error_func ::
  "('r \<Rightarrow> 'r \<times> 'r) \<Rightarrow> ('p, 'st, 'r, 's, 'a, real) QLearning \<Rightarrow> 'p \<Rightarrow> 'p \<Rightarrow> 'st \<Rightarrow> 'r \<Rightarrow>
   ('s, 'a, real, 'e1, 'e2) TransitionBatch \<Rightarrow> error + real list" where
  "td_error_func split self params target_params state rng transition_batch =
     (let rngs = PRNGSequence rng;
          (k1, rngs1) = next_rng split rngs
      in bind_result
           (target self target_params state k1 (Rn transition_batch) (In transition_batch)
              (S_next transition_batch))
           (\<lambda>G. let (k2, rngs2) = next_rng split rngs1;
                    (Q, _) =
                       apply_func_type1 (q self) params state k2 (S transition_batch)
                         (A transition_batch) False
                in jnp_sub G Q))"

text \<open>
  The two keys drawn by \<open>next(rngs)\<close> from \<open>hk.PRNGSequence(rng)\<close>, in the order of
  the draws.
\<close>

definition first_key :: "('r \<Rightarrow> 'r \<times> 'r) \<Rightarrow> 'r \<Rightarrow> 'r" where
  "first_key split rng = fst (next_rng split (PRNGSequence rng))"

definition second_key :: "('r \<Rightarrow> 'r \<times> 'r) \<Rightarrow> 'r \<Rightarrow> 'r" where
  "second_key split rng = fst (next_rng split (snd (next_rng split (PRNGSequence rng))))"

section \<open>The same functions on float32 values\<close>

text \<open>
  The arrays of the program hold float32 values. Where a property depends on the
  values that are not real numbers, the functions are read once more with
  elements of type \<open>f32\<close>: a finite value, \<open>+inf\<close>, \<open>-inf\<close> or \<open>nan\<close>, with the
  IEEE 754 rules for them. A finite result whose magnitude reaches \<open>f32_limit\<close>
  (\<open>2^128 - 2^103\<close>, the least magnitude that rounds to infinity) overflows to an
  infinity; the rounding of a result within the range is not modelled.
\<close>

datatype f32 = Finite real | PInf | NInf | NaN

definition f32_limit :: real where
  "f32_limit = 2 ^ 128 - 2 ^ 103"

definition overflow :: "real \<Rightarrow> f32" where
  "overflow r =
     (if f32_limit \<le> r then PInf else if r \<le> - f32_limit then NInf else Finite r)"

text \<open>A value of \<open>f32\<close> that float32 can hold: a finite one lies within the range.\<close>

definition f32_ok :: "f32 \<Rightarrow> bool" where
  "f32_ok v = (case v of Finite r \<Rightarrow> \<bar>r\<bar> < f32_limit | PInf \<Rightarrow> True | NInf \<Rightarrow> True | NaN \<Rightarrow> True)"

text \<open>An infinity times a finite factor \<open>s\<close>: its sign, and \<open>nan\<close> for \<open>s = 0\<close>.\<close>

definition signed_inf :: "real \<Rightarrow> f32" where
  "signed_inf s = (if 0 < s then PInf else if s < 0 then NInf else NaN)"

fun f32_mul :: "f32 \<Rightarrow> f32 \<Rightarrow> f32" where
  "f32_mul NaN y = NaN"
| "f32_mul x NaN = NaN"
| "f32_mul (Finite x) (Finite y) = overflow (x * y)"
| "f32_mul (Finite x) PInf = signed_inf x"
| "f32_mul (Finite x) NInf = signed_inf (- x)"
| "f32_mul PInf (Finite y) = signed_inf y"
| "f32_mul NInf (Finite y) = signed_inf (- y)"
| "f32_mul PInf PInf = PInf"
| "f32_mul PInf NInf = NInf"
| "f32_mul NInf PInf = NInf"
| "f32_mul NInf NInf = PInf"

fun f32_add :: "f32 \<Rightarrow> f32 \<Rightarrow> f32" where
  "f32_add NaN y = NaN"
| "f32_add x NaN = NaN"
| "f32_add (Finite x) (Finite y) = overflow (x + y)"
| "f32_add PInf NInf = NaN"
| "f32_add NInf PInf = NaN"
| "f32_add PInf y = PInf"
| "f32_add x PInf = PInf"
| "f32_add NInf y = NInf"
| "f32_add x NInf = NInf"

fun f32_neg :: "f32 \<Rightarrow> f32" where
  "f32_neg (Finite x) = Finite (- x)"
| "f32_neg PInf = NInf"
| "f32_neg NInf = PInf"
| "f32_neg NaN = NaN"

definition f32_sub :: "f32 \<Rightarrow> f32 \<Rightarrow> f32" where
  "f32_sub x y = f32_add x (f32_neg y)"

fun f32_exp :: "f32 \<Rightarrow> f32" where
  "f32_exp (Finite x) = overflow (exp x)"
| "f32_exp PInf = PInf"
| "f32_exp NInf = Finite 0"
| "f32_exp NaN = NaN"

text \<open>The order of IEEE 754: every comparison with \<open>nan\<close> is false.\<close>

fun f32_le :: "f32 \<Rightarrow> f32 \<Rightarrow> bool" where
  "f32_le NaN y = False"
| "f32_le x NaN = False"
| "f32_le NInf y = True"
| "f32_le x PInf = True"
| "f32_le PInf y = False"
| "f32_le x NInf = False"
| "f32_le (Finite x) (Finite y) = (x \<le> y)"

definition f32_lt :: "f32 \<Rightarrow> f32 \<Rightarrow> bool" where
  "f32_lt x y = (f32_le x y \<and> \<not> f32_le y x)"

text \<open>\<open>jnp.minimum\<close> and \<open>jnp.maximum\<close> (and \<open>jnp.max\<close>) propagate \<open>nan\<close>.\<close>

definition f32_min :: "f32 \<Rightarrow> f32 \<Rightarrow> f32" where
  "f32_min x y = (if x = NaN \<or> y = NaN then NaN else if f32_le x y then x else y)"

definition f32_max :: "f32 \<Rightarrow> f32 \<Rightarrow> f32" where
  "f32_max x y = (if x = NaN \<or> y = NaN then NaN else if f32_le x y then y else x)"

definition f32_clip :: "f32 \<Rightarrow> f32 \<Rightarrow> f32 \<Rightarrow> f32" where
  "f32_clip x a_min a_max = f32_min a_max (f32_max x a_min)"

definition jnp_add_f32 :: "f32 list \<Rightarrow> f32 list \<Rightarrow> error + f32 list" where
  "jnp_add_f32 = broadcast2 f32_add"

definition jnp_sub_f32 :: "f32 list \<Rightarrow> f32 list \<Rightarrow> error + f32 list" where
  "jnp_sub_f32 = broadcast2 f32_sub"

definition jnp_mul_f32 :: "f32 list \<Rightarrow> f32 list \<Rightarrow> error + f32 list" where
  "jnp_mul_f32 = broadcast2 f32_mul"

definition jnp_minimum_f32 :: "f32 list \<Rightarrow> f32 list \<Rightarrow> error + f32 list" where
  "jnp_minimum_f32 = broadcast2 f32_min"

definition jnp_exp_f32 :: "f32 list \<Rightarrow> f32 list" where
  "jnp_exp_f32 xs = map f32_exp xs"

definition jnp_clip_f32 :: "f32 list \<Rightarrow> f32 \<Rightarrow> f32 \<Rightarrow> f32 list" where
  "jnp_clip_f32 xs a_min a_max = map (\<lambda>x. f32_clip x a_min a_max) xs"

fun row_max_f32 :: "f32 list \<Rightarrow> error + f32" where
  "row_max_f32 [] = Inl ValueError"
| "row_max_f32 (x # xs) = Inr (foldl f32_max x xs)"

fun jnp_max_axis1_f32 :: "f32 list list \<Rightarrow> error + f32 list" where
  "jnp_max_axis1_f32 [] = Inr []"
| "jnp_max_axis1_f32 (r # rs) =
     bind_result (row_max_f32 r) (\<lambda>m.
       bind_result (jnp_max_axis1_f32 rs) (\<lambda>ms. Inr (m # ms)))"

text \<open>
  \<open>objective_func\<close> on float32 values. The scalars \<open>1 - epsilon\<close> and
  \<open>1 + epsilon\<close> become float32 values when \<open>jnp.clip\<close> receives them.
\<close>

definition objective_func_f32 ::
  "('r \<Rightarrow> 'r \<times> 'r) \<Rightarrow> ('p, 'st, 'r, 's, 'a, 'd, 'x, f32) PPOClip \<Rightarrow> 'p \<Rightarrow> 'st \<Rightarrow> 'r \<Rightarrow>
   ('s, 'a, f32, 'e1, 'e2) TransitionBatch \<Rightarrow> f32 list \<Rightarrow> real \<Rightarrow>
   error + (f32 list \<times> ('d \<times> f32 list \<times> 'st))" where
  "objective_func_f32 split self params state rng transition_batch Adv eps =
     (let rngs = PRNGSequence rng;
          (k1, rngs1) = next_rng split rngs;
          (dist_params, state_new) =
             apply_func (pi_policy self) params state k1 (S transition_batch) True;
          (k2, rngs2) = next_rng split rngs1;
          X_a = action_preprocessor_func (pi_policy self) params k2 (A transition_batch);
          log_pi = log_proba (pi_policy self) dist_params X_a
      in bind_result (jnp_sub_f32 log_pi (logP transition_batch)) (\<lambda>d.
           let ratio = jnp_exp_f32 d;
               ratio_clip = jnp_clip_f32 ratio (overflow (1 - eps)) (overflow (1 + eps))
           in bind_result (jnp_mul_f32 Adv ratio) (\<lambda>bare.
                bind_result (jnp_mul_f32 Adv ratio_clip) (\<lambda>clipped.
                  bind_result (jnp_minimum_f32 bare clipped) (\<lambda>objective.
                    Inr (objective, (dist_params, log_pi, state_new)))))))"

text \<open>
  One entry of the objective array: \<open>jnp.minimum(Adv * ratio, Adv * ratio_clip)\<close>
  for one transition.
\<close>

definition per_transition_objective_f32 :: "f32 \<Rightarrow> f32 \<Rightarrow> real \<Rightarrow> f32" where
  "per_transition_objective_f32 adv ratio eps =
     f32_min (f32_mul adv ratio)
       (f32_mul adv (f32_clip ratio (overflow (1 - eps)) (overflow (1 + eps))))"

text \<open>\<open>target\<close> on float32 values.\<close>

definition target_f32 ::
  "('p, 'st, 'r, 's, 'a, f32) QLearning \<Rightarrow> 'p \<Rightarrow> 'st \<Rightarrow> 'r \<Rightarrow> f32 list \<Rightarrow> f32 list \<Rightarrow> 's \<Rightarrow>
   error + f32 list" where
  "target_f32 self params state rng Rn_b In_b S_next_b =
     (let (f, f_inv) = value_transform self;
          (Q_s_next, _) = apply_func_type2 (q_targ self) params state rng S_next_b False
      in bind_result (jnp_max_axis1_f32 Q_s_next) (\<lambda>Q_sa_next.
           bind_result (jnp_mul_f32 In_b (map f_inv Q_sa_next)) (\<lambda>boot.
             bind_result (jnp_add_f32 Rn_b boot) (\<lambda>g. Inr (map f g)))))"

section \<open>Concrete scenarios\<close>

text \<open>A random engine for the scenarios: keys are counters.\<close>

definition counter_split :: "nat \<Rightarrow> nat \<times> nat" where
  "counter_split k = (k, Suc k)"

text \<open>
  Scenario A: two transitions with \<open>Adv = [1, -1]\<close>, probability ratios
  \<open>[3/2, 1/2]\<close> (the recorded log-propensities are \<open>0\<close>) and \<open>epsilon = 1/5\<close>.
\<close>

definition scenario_A_pi :: "(unit, unit, nat, unit, unit, unit, unit, real) Policy" where
  "scenario_A_pi =
     \<lparr>apply_func = (\<lambda>params state rng s is_training. ((), ())),
      action_preprocessor_func = (\<lambda>params rng a. ()),
      log_proba = (\<lambda>dist_params x. [ln (3 / 2), ln (1 / 2)])\<rparr>"

definition scenario_A :: "(unit, unit, nat, unit, unit, unit, unit, real) PPOClip" where
  "scenario_A = \<lparr>pi_policy = scenario_A_pi, regularizer = None, epsilon = 1 / 5\<rparr>"

definition scenario_A_batch :: "(unit, unit, real, unit, unit) TransitionBatch" where
  "scenario_A_batch =
     \<lparr>S = (), A = (), logP = [0, 0], Rn = [0, 0], In = [0, 0], S_next = (),
      extra1 = (), extra2 = ()\<rparr>"


text \<open>
  A regularizer with penalty zero on both transitions, whose \<open>hyperparams\<close> dict
  lives at address \<open>0\<close> of \<open>scenario_heap\<close>.
\<close>

definition zero_regularizer :: "(unit, real) PolicyRegularizer" where
  "zero_regularizer =
     \<lparr>hyperparams = Stored 0,
      reg_apply_func = (\<lambda>dist_params hp. [0, 0]),
      metrics_func = (\<lambda>dist_params hp. Map.empty)\<rparr>"

definition scenario_A_regularized :: "(unit, unit, nat, unit, unit, unit, unit, real) PPOClip" where
  "scenario_A_regularized = scenario_A\<lparr>regularizer := Some zero_regularizer\<rparr>"

definition scenario_heap :: heap where
  "scenario_heap = \<lparr>dicts = [0 \<mapsto> [''beta'' \<mapsto> 1 / 100]], fresh = 1\<rparr>"

text \<open>
  Scenario B: a q-function with three actions whose target-network values at
  \<open>S_next\<close> are \<open>[1, 5, 2]\<close>, \<open>Rn = 1\<close> and \<open>In = 9/10\<close>. Its value for the
  recorded action is \<open>2\<close> in training mode and \<open>3\<close> otherwise.
\<close>

definition scenario_B_q :: "(unit, unit, nat, unit, unit, real) Q" where
  "scenario_B_q =
     \<lparr>action_space_is_discrete = True,
      apply_func_type1 =
        (\<lambda>params state rng s a is_training. (if is_training then [2] else [3], ())),
      apply_func_type2 = (\<lambda>params state rng s is_training. ([[1, 5, 2]], ()))\<rparr>"

definition squared_error :: "real list \<Rightarrow> real list \<Rightarrow> real" where
  "squared_error G Q = jnp_mean (map2 (\<lambda>g v. (g - v)\<^sup>2) G Q)"

definition scenario_B :: "(unit, unit, nat, unit, unit, real) QLearning" where
  "scenario_B =
     \<lparr>q = scenario_B_q, q_targ = scenario_B_q, loss_function = squared_error,
      value_transform = (\<lambda>x. x, \<lambda>x. x)\<rparr>"

definition scenario_B_batch :: "(unit, unit, real, unit, unit) TransitionBatch" where
  "scenario_B_batch =
     \<lparr>S = (), A = (), logP = [0], Rn = [1], In = [9 / 10], S_next = (),
      extra1 = (), extra2 = ()\<rparr>"

text \<open>
  A batch that is not well-shaped: two entries of \<open>Rn\<close> against three of \<open>In\<close>.
\<close>

definition mismatched_batch :: "(unit, unit, real, unit, unit) TransitionBatch" where
  "mismatched_batch = scenario_B_batch\<lparr>Rn := [1, 2], In := [1, 2, 3]\<rparr>"

text \<open>Scenario C: the same q-function over a continuous action space.\<close>

definition continuous_q :: "(unit, unit, nat, unit, unit, real) Q" where
  "continuous_q = scenario_B_q\<lparr>action_space_is_discrete := False\<rparr>"

text \<open>
  A regularizer whose \<open>hyperparams\<close> is a property that returns
  \<open>{'beta': 1/100}\<close>, a new dict on every access.
\<close>

definition property_regularizer :: "(unit, real) PolicyRegularizer" where
  "property_regularizer = zero_regularizer\<lparr>hyperparams := Computed [''beta'' \<mapsto> 1 / 100]\<rparr>"

definition scenario_A_property :: "(unit, unit, nat, unit, unit, unit, unit, real) PPOClip" where
  "scenario_A_property = scenario_A\<lparr>regularizer := Some property_regularizer\<rparr>"

text \<open>Scenario A on float32 values.\<close>

definition scenario_A_f32_pi :: "(unit, unit, nat, unit, unit, unit, unit, f32) Policy" where
  "scenario_A_f32_pi =
     \<lparr>apply_func = (\<lambda>params state rng s is_training. ((), ())),
      action_preprocessor_func = (\<lambda>params rng a. ()),
      log_proba = (\<lambda>dist_params x. [Finite (ln (3 / 2)), Finite (ln (1 / 2))])\<rparr>"

definition scenario_A_f32 :: "(unit, unit, nat, unit, unit, unit, unit, f32) PPOClip" where
  "scenario_A_f32 = \<lparr>pi_policy = scenario_A_f32_pi, regularizer = None, epsilon = 1 / 5\<rparr>"

definition scenario_A_f32_batch :: "(unit, unit, f32, unit, unit) TransitionBatch" where
  "scenario_A_f32_batch =
     \<lparr>S = (), A = (), logP = [Finite 0, Finite 0], Rn = [Finite 0, Finite 0],
      In = [Finite 0, Finite 0], S_next = (), extra1 = (), extra2 = ()\<rparr>"

text \<open>
  Q-learning objects on float32 values, with the value transform \<open>f x = x / 2\<close>
  and inverse \<open>2 x\<close>, computed in float32: one whose target network gives
  \<open>[1, 5, 2]\<close> at \<open>S_next\<close>, and one whose target network gives the single value
  \<open>2^127\<close>, which float32 holds and whose double it does not. A third, without
  value transform, has a target network that gives \<open>[1, +inf, 2]\<close>.
\<close>

definition halving :: "(f32 \<Rightarrow> f32) \<times> (f32 \<Rightarrow> f32)" where
  "halving = (\<lambda>x. f32_mul (Finite (1 / 2)) x, \<lambda>x. f32_mul (Finite 2) x)"

definition f32_q :: "f32 list \<Rightarrow> (unit, unit, nat, unit, unit, f32) Q" where
  "f32_q values =
     \<lparr>action_space_is_discrete = True,
      apply_func_type1 = (\<lambda>params state rng s a is_training. ([Finite 2], ())),
      apply_func_type2 = (\<lambda>params state rng s is_training. ([values], ()))\<rparr>"

definition f32_loss :: "f32 list \<Rightarrow> f32 list \<Rightarrow> f32" where
  "f32_loss G Q = Finite 0"

definition halving_scenario :: "(unit, unit, nat, unit, unit, f32) QLearning" where
  "halving_scenario =
     \<lparr>q = f32_q [Finite 1, Finite 5, Finite 2], q_targ = f32_q [Finite 1, Finite 5, Finite 2],
      loss_function = f32_loss, value_transform = halving\<rparr>"

definition overflow_scenario :: "(unit, unit, nat, unit, unit, f32) QLearning" where
  "overflow_scenario =
     \<lparr>q = f32_q [Finite (2 ^ 127)], q_targ = f32_q [Finite (2 ^ 127)],
      loss_function = f32_loss, value_transform = halving\<rparr>"

definition infinite_scenario :: "(unit, unit, nat, unit, unit, f32) QLearning" where
  "infinite_scenario =
     \<lparr>q = f32_q [Finite 1, PInf, Finite 2], q_targ = f32_q [Finite 1, PInf, Finite 2],
      loss_function = f32_loss, value_transform = (\<lambda>x. x, \<lambda>x. x)\<rparr>"

section \<open>Properties of the array operations\<close>

lemma bind_result_Inr [simp]: "bind_result (Inr x) k = k x"
  by (simp add: bind_result_def)

lemma bind_result_Inl [simp]: "bind_result (Inl e) k = Inl e"
  by (simp add: bind_result_def)

lemma broadcast2_same_length:
  "length xs = length ys \<Longrightarrow> broadcast2 f xs ys = Inr (map2 f xs ys)"
  by (simp add: broadcast2_def)

lemma jnp_mean_zeros:
  assumes "\<forall>x \<in> set xs. x = 0"
  shows "jnp_mean xs = 0"
proof -
  have "sum_list xs = 0"
    using assms by (induction xs) simp_all
  then show ?thesis
    by (simp add: jnp_mean_def)
qed

section \<open>Properties of the float32 operations\<close>

lemma f32_limit_pos: "0 < f32_limit"
  by (simp add: f32_limit_def)

lemma overflow_not_NaN [simp]: "overflow r \<noteq> NaN"
  by (simp add: overflow_def)

lemma overflow_in_range: "\<bar>r\<bar> < f32_limit \<Longrightarrow> overflow r = Finite r"
  by (auto simp add: overflow_def)

lemma overflow_mono: "x \<le> y \<Longrightarrow> f32_le (overflow x) (overflow y)"
  using f32_limit_pos by (auto simp add: overflow_def)

lemma f32_le_refl: "x \<noteq> NaN \<Longrightarrow> f32_le x x"
  by (cases x) simp_all

lemma f32_le_total: "x \<noteq> NaN \<Longrightarrow> y \<noteq> NaN \<Longrightarrow> f32_le x y \<or> f32_le y x"
  by (cases x; cases y) auto

lemma f32_le_antisym: "f32_le x y \<Longrightarrow> f32_le y x \<Longrightarrow> x = y"
  by (cases x; cases y) auto

lemma f32_le_trans: "f32_le x y \<Longrightarrow> f32_le y z \<Longrightarrow> f32_le x z"
  by (cases x; cases y; cases z) auto

lemma f32_le_not_NaN: "f32_le x y \<Longrightarrow> x \<noteq> NaN \<and> y \<noteq> NaN"
  by (cases x; cases y) auto

lemma f32_mul_not_NaN: "a \<noteq> 0 \<Longrightarrow> x \<noteq> NaN \<Longrightarrow> f32_mul (Finite a) x \<noteq> NaN"
  by (cases x) (auto simp add: signed_inf_def)

lemma overflow_le_PInf [simp]: "f32_le (overflow r) PInf"
  by (simp add: overflow_def)

lemma NInf_le_overflow [simp]: "f32_le NInf (overflow r)"
  by (simp add: overflow_def)

lemma f32_mul_mono:
  assumes "0 < a" and "f32_le x y"
  shows "f32_le (f32_mul (Finite a) x) (f32_mul (Finite a) y)"
proof (cases x)
  case (Finite u)
  then show ?thesis
    using assms by (cases y) (simp_all add: signed_inf_def overflow_mono)
next
  case PInf
  then show ?thesis
    using assms by (cases y) (simp_all add: signed_inf_def)
next
  case NInf
  then show ?thesis
    using assms by (cases y) (simp_all add: signed_inf_def)
next
  case NaN
  then show ?thesis
    using assms by simp
qed

lemma f32_mul_anti:
  assumes "a < 0" and "f32_le x y"
  shows "f32_le (f32_mul (Finite a) y) (f32_mul (Finite a) x)"
proof (cases x)
  case (Finite u)
  then show ?thesis
    using assms by (cases y) (simp_all add: signed_inf_def overflow_mono)
next
  case PInf
  then show ?thesis
    using assms by (cases y) (simp_all add: signed_inf_def)
next
  case NInf
  then show ?thesis
    using assms by (cases y) (simp_all add: signed_inf_def)
next
  case NaN
  then show ?thesis
    using assms by simp
qed

lemma f32_min_le_left: "a \<noteq> NaN \<Longrightarrow> b \<noteq> NaN \<Longrightarrow> f32_le (f32_min a b) a"
  using f32_le_total [of a b] by (auto simp add: f32_min_def f32_le_refl)

lemma f32_min_eq_left: "f32_le a b \<Longrightarrow> f32_min a b = a"
  by (auto simp add: f32_min_def dest: f32_le_not_NaN)

lemma f32_clip_not_NaN:
  "x \<noteq> NaN \<Longrightarrow> lo \<noteq> NaN \<Longrightarrow> hi \<noteq> NaN \<Longrightarrow> f32_clip x lo hi \<noteq> NaN"
  by (simp add: f32_clip_def f32_min_def f32_max_def)

lemma f32_clip_ge:
  assumes "f32_le lo hi" and "f32_le x hi"
  shows "f32_le x (f32_clip x lo hi)"
proof -
  have nn: "x \<noteq> NaN" "lo \<noteq> NaN" "hi \<noteq> NaN"
    using assms by (auto dest: f32_le_not_NaN)
  show ?thesis
    using assms nn f32_le_total [of x lo]
    by (auto simp add: f32_clip_def f32_min_def f32_max_def f32_le_refl
        dest: f32_le_antisym)
qed

lemma f32_clip_le:
  assumes "f32_le lo hi" and "f32_le lo x"
  shows "f32_le (f32_clip x lo hi) x"
proof -
  have nn: "x \<noteq> NaN" "lo \<noteq> NaN" "hi \<noteq> NaN"
    using assms by (auto dest: f32_le_not_NaN)
  show ?thesis
    using assms nn f32_le_total [of hi x] f32_le_antisym [of x lo]
    by (auto simp add: f32_clip_def f32_min_def f32_max_def f32_le_refl)
qed

lemma overflow_ln:
  assumes "1 / 2 \<le> x" and "x \<le> 2"
  shows "overflow (ln x) = Finite (ln x)"
proof -
  have "ln x \<le> x - 1"
    using assms by (intro ln_le_minus_one) simp
  moreover have "- ln x = ln (1 / x)"
    using assms by (simp add: ln_div)
  moreover have "ln (1 / x) \<le> 1 / x - 1"
    using assms by (intro ln_le_minus_one) simp
  moreover have "1 / x \<le> 2"
    using assms by (simp add: field_simps)
  ultimately have "\<bar>ln x\<bar> \<le> 1"
    using assms by linarith
  then show ?thesis
    by (intro overflow_in_range) (simp add: f32_limit_def)
qed

lemma overflow_above: "f32_limit \<le> r \<Longrightarrow> overflow r = PInf"
  by (simp add: overflow_def)

lemma overflow_below: "r \<le> - f32_limit \<Longrightarrow> overflow r = NInf"
  using f32_limit_pos by (simp add: overflow_def)

lemmas f32_eval =
  overflow_in_range overflow_above overflow_below f32_limit_def signed_inf_def
  f32_sub_def f32_lt_def f32_min_def f32_max_def f32_clip_def

lemmas scenario_A_f32_defs =
  objective_func_f32_def scenario_A_f32_def scenario_A_f32_pi_def scenario_A_f32_batch_def
  counter_split_def PRNGSequence_def next_rng_def jnp_sub_f32_def jnp_mul_f32_def
  jnp_minimum_f32_def broadcast2_def jnp_exp_f32_def jnp_clip_f32_def overflow_ln
  forward_pass_def Let_def f32_eval

section \<open>Properties of the PPO-clip objective\<close>

text \<open>
  With one advantage, one recorded log-propensity and one current log-probability
  per transition, \<open>objective_func\<close> raises nothing and its array holds the
  per-transition objective of each transition.
\<close>

lemma objective_func_elementwise:
  assumes fp: "forward_pass split self params state rng tb = (dist_params, log_pi, state_new)"
    and la: "length Adv = length log_pi"
    and lp: "length (logP tb) = length log_pi"
  shows "objective_func split self params state rng tb Adv eps =
           Inr (map (\<lambda>i. per_transition_objective (Adv ! i) (exp (log_pi ! i - logP tb ! i)) eps)
                  [0..<length log_pi],
                (dist_params, log_pi, state_new))"
proof -
  let ?d = "map2 (\<lambda>x y. x - y) log_pi (logP tb)"
  let ?ratio = "jnp_exp ?d"
  let ?clip = "jnp_clip ?ratio (1 - eps) (1 + eps)"
  let ?bare = "map2 (\<lambda>x y. x * y) Adv ?ratio"
  let ?clipped = "map2 (\<lambda>x y. x * y) Adv ?clip"
  have len: "length ?ratio = length log_pi" "length ?clip = length log_pi"
    using lp by (simp_all add: jnp_exp_def jnp_clip_def)
  have unfold: "objective_func split self params state rng tb Adv eps =
      bind_result (jnp_sub log_pi (logP tb)) (\<lambda>d.
           let ratio = jnp_exp d;
               ratio_clip = jnp_clip ratio (1 - eps) (1 + eps)
           in bind_result (jnp_mul Adv ratio) (\<lambda>bare.
                bind_result (jnp_mul Adv ratio_clip) (\<lambda>clipped.
                  bind_result (jnp_minimum bare clipped) (\<lambda>objective.
                    Inr (objective, (dist_params, log_pi, state_new))))))"
    using fp unfolding objective_func_def forward_pass_def
    by (simp add: Let_def split: prod.splits)
  have sub: "jnp_sub log_pi (logP tb) = Inr ?d"
    using lp by (simp add: jnp_sub_def broadcast2_same_length)
  have bare: "jnp_mul Adv ?ratio = Inr ?bare"
    using la len by (simp add: jnp_mul_def broadcast2_same_length)
  have clipped: "jnp_mul Adv ?clip = Inr ?clipped"
    using la len by (simp add: jnp_mul_def broadcast2_same_length)
  have minimum: "jnp_minimum ?bare ?clipped = Inr (map2 min ?bare ?clipped)"
    using la len by (simp add: jnp_minimum_def broadcast2_same_length)
  have pointwise: "map2 min ?bare ?clipped =
      map (\<lambda>i. per_transition_objective (Adv ! i) (exp (log_pi ! i - logP tb ! i)) eps)
        [0..<length log_pi]"
    using la lp
    by (intro nth_equalityI)
       (simp_all add: per_transition_objective_def jnp_exp_def jnp_clip_def)
  show ?thesis
    unfolding unfold sub by (simp add: Let_def bare clipped minimum pointwise)
qed

text \<open>
  C1. For rank-1 arrays \<open>Adv\<close>, \<open>logP\<close> and \<open>log_pi\<close> with one entry per transition
  and every \<open>epsilon\<close>, the bare loss returned by \<open>loss_func\<close> is the negative mean over
  the batch of \<open>min(Adv \<rho>, Adv clip(\<rho>, 1 - epsilon, 1 + epsilon))\<close> with
  \<open>\<rho> = exp(log_pi - logP)\<close>, whether or not a regularizer is attached.
\<close>

theorem loss_bare_neg_mean_objective:
  assumes "forward_pass split self params state rng tb = (dist_params, log_pi, state_new)"
    and "length Adv = length log_pi"
    and "length (logP tb) = length log_pi"
  shows "\<exists>loss. PPOClip_loss_func split self params state rng tb Adv eps reg_hparams =
           Inr (loss,
             (loss,
              - jnp_mean
                  (map (\<lambda>i. min (Adv ! i * exp (log_pi ! i - logP tb ! i))
                               (Adv ! i * clip (exp (log_pi ! i - logP tb ! i))
                                            (1 - eps) (1 + eps)))
                     [0..<length log_pi]),
              dist_params, log_pi, state_new))"
  unfolding PPOClip_loss_func_def objective_func_elementwise [OF assms]
  by (simp add: Let_def per_transition_objective_def)

text \<open>
  Scenario A of the spec: \<open>Adv = [1, -1]\<close>, ratios \<open>[3/2, 1/2]\<close> and
  \<open>epsilon = 1/5\<close> give the objective \<open>[6/5, -4/5]\<close> and the bare loss \<open>-1/5\<close>.
\<close>

theorem scenario_A_loss_bare:
  "forward_pass counter_split scenario_A () () 0 scenario_A_batch
     = ((), [ln (3 / 2), ln (1 / 2)], ())
   \<and> jnp_exp [ln (3 / 2) - 0, ln (1 / 2) - 0] = [3 / 2, 1 / 2]
   \<and> objective_func counter_split scenario_A () () 0 scenario_A_batch [1, - 1] (1 / 5)
     = Inr ([6 / 5, - 4 / 5], ((), [ln (3 / 2), ln (1 / 2)], ()))
   \<and> PPOClip_loss_func counter_split scenario_A () () 0 scenario_A_batch [1, - 1] (1 / 5)
       Map.empty
     = Inr (- 1 / 5, (- 1 / 5, - 1 / 5, (), [ln (3 / 2), ln (1 / 2)], ()))"
  using loss_bare_neg_mean_objective [where split = counter_split and self = scenario_A
      and params = "()" and state = "()" and rng = 0 and tb = scenario_A_batch
      and dist_params = "()" and log_pi = "[ln (3 / 2), ln (1 / 2)]" and state_new = "()"
      and Adv = "[1, - 1]" and eps = "1 / 5" and reg_hparams = Map.empty]
  by (simp add: forward_pass_def PPOClip_loss_func_def objective_func_def scenario_A_def
      scenario_A_pi_def scenario_A_batch_def counter_split_def PRNGSequence_def next_rng_def
      jnp_sub_def jnp_mul_def jnp_minimum_def broadcast2_def jnp_exp_def jnp_clip_def
      clip_def jnp_mean_def Let_def)

text \<open>
  On float32 values too, with one advantage, one recorded log-propensity and one
  current log-probability per transition, \<open>objective_func\<close> raises nothing and its
  array holds \<open>jnp.minimum(Adv * ratio, Adv * ratio_clip)\<close> of each transition.
\<close>

lemma bounds_ordered: "0 < eps \<Longrightarrow> f32_le (overflow (1 - eps)) (overflow (1 + eps))"
  by (intro overflow_mono) simp

lemma per_transition_objective_f32_cases:
  assumes eps: "0 < eps" and rho: "rho \<noteq> NaN"
  shows "(0 < adv \<longrightarrow>
            (if f32_lt (overflow (1 + eps)) rho
             then f32_le (per_transition_objective_f32 (Finite adv) rho eps)
                    (f32_mul (Finite adv) rho)
             else per_transition_objective_f32 (Finite adv) rho eps =
                    f32_mul (Finite adv) rho))
       \<and> (adv < 0 \<longrightarrow>
            (if f32_lt rho (overflow (1 - eps))
             then f32_le (per_transition_objective_f32 (Finite adv) rho eps)
                    (f32_mul (Finite adv) rho)
             else per_transition_objective_f32 (Finite adv) rho eps =
                    f32_mul (Finite adv) rho))"
proof -
  let ?lo = "overflow (1 - eps)" and ?hi = "overflow (1 + eps)"
  let ?clip = "f32_clip rho ?lo ?hi"
  have clip: "?clip \<noteq> NaN"
    using rho by (simp add: f32_clip_not_NaN)
  have below: "f32_le (per_transition_objective_f32 (Finite adv) rho eps)
      (f32_mul (Finite adv) rho)" if "adv \<noteq> 0"
    unfolding per_transition_objective_f32_def
    using that rho clip by (intro f32_min_le_left f32_mul_not_NaN)
  have pos: "per_transition_objective_f32 (Finite adv) rho eps = f32_mul (Finite adv) rho"
    if "0 < adv" "\<not> f32_lt ?hi rho"
  proof -
    have "f32_le rho ?hi"
      using that(2) rho f32_le_total [of rho ?hi] by (auto simp add: f32_lt_def)
    then have "f32_le rho ?clip"
      using bounds_ordered [OF eps] by (intro f32_clip_ge)
    then have "f32_le (f32_mul (Finite adv) rho) (f32_mul (Finite adv) ?clip)"
      using that(1) by (intro f32_mul_mono)
    then show ?thesis
      unfolding per_transition_objective_f32_def by (rule f32_min_eq_left)
  qed
  have neg: "per_transition_objective_f32 (Finite adv) rho eps = f32_mul (Finite adv) rho"
    if "adv < 0" "\<not> f32_lt rho ?lo"
  proof -
    have "f32_le ?lo rho"
      using that(2) rho f32_le_total [of rho ?lo] by (auto simp add: f32_lt_def)
    then have "f32_le ?clip rho"
      using bounds_ordered [OF eps] by (intro f32_clip_le)
    then have "f32_le (f32_mul (Finite adv) rho) (f32_mul (Finite adv) ?clip)"
      using that(1) by (intro f32_mul_anti)
    then show ?thesis
      unfolding per_transition_objective_f32_def by (rule f32_min_eq_left)
  qed
  show ?thesis
    using below pos neg by auto
qed

lemma objective_func_f32_elementwise:
  assumes fp: "forward_pass split self params state rng tb = (dist_params, log_pi, state_new)"
    and la: "length Adv = length log_pi"
    and lp: "length (logP tb) = length log_pi"
  shows "objective_func_f32 split self params state rng tb Adv eps =
           Inr (map (\<lambda>i. per_transition_objective_f32 (Adv ! i)
                          (f32_exp (f32_sub (log_pi ! i) (logP tb ! i))) eps)
                  [0..<length log_pi],
                (dist_params, log_pi, state_new))"
proof -
  let ?d = "map2 f32_sub log_pi (logP tb)"
  let ?ratio = "jnp_exp_f32 ?d"
  let ?clip = "jnp_clip_f32 ?ratio (overflow (1 - eps)) (overflow (1 + eps))"
  let ?bare = "map2 f32_mul Adv ?ratio"
  let ?clipped = "map2 f32_mul Adv ?clip"
  have len: "length ?ratio = length log_pi" "length ?clip = length log_pi"
    using lp by (simp_all add: jnp_exp_f32_def jnp_clip_f32_def)
  have unfold: "objective_func_f32 split self params state rng tb Adv eps =
      bind_result (jnp_sub_f32 log_pi (logP tb)) (\<lambda>d.
           let ratio = jnp_exp_f32 d;
               ratio_clip = jnp_clip_f32 ratio (overflow (1 - eps)) (overflow (1 + eps))
           in bind_result (jnp_mul_f32 Adv ratio) (\<lambda>bare.
                bind_result (jnp_mul_f32 Adv ratio_clip) (\<lambda>clipped.
                  bind_result (jnp_minimum_f32 bare clipped) (\<lambda>objective.
                    Inr (objective, (dist_params, log_pi, state_new))))))"
    using fp unfolding objective_func_f32_def forward_pass_def
    by (simp add: Let_def split: prod.splits)
  have sub: "jnp_sub_f32 log_pi (logP tb) = Inr ?d"
    using lp by (simp add: jnp_sub_f32_def broadcast2_same_length)
  have bare: "jnp_mul_f32 Adv ?ratio = Inr ?bare"
    using la len by (simp add: jnp_mul_f32_def broadcast2_same_length)
  have clipped: "jnp_mul_f32 Adv ?clip = Inr ?clipped"
    using la len by (simp add: jnp_mul_f32_def broadcast2_same_length)
  have minimum: "jnp_minimum_f32 ?bare ?clipped = Inr (map2 f32_min ?bare ?clipped)"
    using la len by (simp add: jnp_minimum_f32_def broadcast2_same_length)
  have pointwise: "map2 f32_min ?bare ?clipped =
      map (\<lambda>i. per_transition_objective_f32 (Adv ! i)
                 (f32_exp (f32_sub (log_pi ! i) (logP tb ! i))) eps)
        [0..<length log_pi]"
    using la lp
    by (intro nth_equalityI)
       (simp_all add: per_transition_objective_f32_def jnp_exp_f32_def jnp_clip_f32_def)
  show ?thesis
    unfolding unfold sub by (simp add: Let_def bare clipped minimum pointwise)
qed

text \<open>
  C5, as amended. For every \<open>epsilon > 0\<close>, on a well-shaped batch, for every
  transition with a finite advantage and a ratio \<open>\<rho> = exp(log_pi - logP)\<close> that is
  not \<open>nan\<close>, the entry of the array that \<open>objective_func\<close> returns satisfies: with
  a positive advantage it is at most the bare objective \<open>Adv \<rho>\<close> when
  \<open>\<rho> > 1 + epsilon\<close> and equal to it otherwise; with a negative advantage it is at
  most the bare objective when \<open>\<rho> < 1 - epsilon\<close> and equal to it otherwise.
\<close>

theorem clipped_objective_at_most_bare:
  assumes "0 < eps"
    and "forward_pass split self params state rng tb = (dist_params, log_pi, state_new)"
    and "length Adv = length log_pi"
    and "length (logP tb) = length log_pi"
    and "i < length log_pi"
    and "Adv ! i = Finite adv"
    and "f32_exp (f32_sub (log_pi ! i) (logP tb ! i)) = rho"
    and "rho \<noteq> NaN"
  shows "\<exists>objective.
           objective_func_f32 split self params state rng tb Adv eps =
             Inr (objective, (dist_params, log_pi, state_new))
         \<and> (0 < adv \<longrightarrow>
              (if f32_lt (overflow (1 + eps)) rho
               then f32_le (objective ! i) (f32_mul (Adv ! i) rho)
               else objective ! i = f32_mul (Adv ! i) rho))
         \<and> (adv < 0 \<longrightarrow>
              (if f32_lt rho (overflow (1 - eps))
               then f32_le (objective ! i) (f32_mul (Adv ! i) rho)
               else objective ! i = f32_mul (Adv ! i) rho))"
  unfolding objective_func_f32_elementwise [OF assms(2,3,4)]
  using per_transition_objective_f32_cases [OF assms(1,8), of adv] assms(5,6,7)
  by simp

text \<open>
  Scenario A on float32 values, with advantages \<open>[1, -1]\<close> (both transitions
  clipped: \<open>6/5 \<le> 3/2\<close> and \<open>-4/5 \<le> -1/2\<close>) and with advantages \<open>[-1, 1]\<close>
  (neither clipped: the objective is the bare objective).
\<close>

theorem scenario_A_f32_objective:
  "(0::real) < 1 / 5
   \<and> forward_pass counter_split scenario_A_f32 () () 0 scenario_A_f32_batch
     = ((), [Finite (ln (3 / 2)), Finite (ln (1 / 2))], ())
   \<and> f32_exp (f32_sub (Finite (ln (3 / 2))) (Finite 0)) = Finite (3 / 2)
   \<and> f32_exp (f32_sub (Finite (ln (1 / 2))) (Finite 0)) = Finite (1 / 2)
   \<and> f32_lt (overflow (1 + 1 / 5)) (Finite (3 / 2))
   \<and> f32_lt (Finite (1 / 2)) (overflow (1 - 1 / 5))
   \<and> objective_func_f32 counter_split scenario_A_f32 () () 0 scenario_A_f32_batch
       [Finite 1, Finite (- 1)] (1 / 5)
     = Inr ([Finite (6 / 5), Finite (- 4 / 5)],
            ((), [Finite (ln (3 / 2)), Finite (ln (1 / 2))], ()))
   \<and> f32_le (Finite (6 / 5)) (f32_mul (Finite 1) (Finite (3 / 2)))
   \<and> f32_le (Finite (- 4 / 5)) (f32_mul (Finite (- 1)) (Finite (1 / 2)))
   \<and> objective_func_f32 counter_split scenario_A_f32 () () 0 scenario_A_f32_batch
       [Finite (- 1), Finite 1] (1 / 5)
     = Inr ([f32_mul (Finite (- 1)) (Finite (3 / 2)), f32_mul (Finite 1) (Finite (1 / 2))],
            ((), [Finite (ln (3 / 2)), Finite (ln (1 / 2))], ()))"
  using clipped_objective_at_most_bare [where split = counter_split and self = scenario_A_f32
      and params = "()" and state = "()" and rng = 0 and tb = scenario_A_f32_batch
      and dist_params = "()" and log_pi = "[Finite (ln (3 / 2)), Finite (ln (1 / 2))]"
      and state_new = "()" and Adv = "[Finite 1, Finite (- 1)]" and eps = "1 / 5"
      and i = 0 and adv = 1 and rho = "Finite (3 / 2)"]
    clipped_objective_at_most_bare [where split = counter_split and self = scenario_A_f32
      and params = "()" and state = "()" and rng = 0 and tb = scenario_A_f32_batch
      and dist_params = "()" and log_pi = "[Finite (ln (3 / 2)), Finite (ln (1 / 2))]"
      and state_new = "()" and Adv = "[Finite 1, Finite (- 1)]" and eps = "1 / 5"
      and i = 1 and adv = "- 1" and rho = "Finite (1 / 2)"]
    clipped_objective_at_most_bare [where split = counter_split and self = scenario_A_f32
      and params = "()" and state = "()" and rng = 0 and tb = scenario_A_f32_batch
      and dist_params = "()" and log_pi = "[Finite (ln (3 / 2)), Finite (ln (1 / 2))]"
      and state_new = "()" and Adv = "[Finite (- 1), Finite 1]" and eps = "1 / 5"
      and i = 0 and adv = "- 1" and rho = "Finite (3 / 2)"]
    clipped_objective_at_most_bare [where split = counter_split and self = scenario_A_f32
      and params = "()" and state = "()" and rng = 0 and tb = scenario_A_f32_batch
      and dist_params = "()" and log_pi = "[Finite (ln (3 / 2)), Finite (ln (1 / 2))]"
      and state_new = "()" and Adv = "[Finite (- 1), Finite 1]" and eps = "1 / 5"
      and i = 1 and adv = 1 and rho = "Finite (1 / 2)"]
  by (simp add: scenario_A_f32_defs)

text \<open>
  C5 as stated fails: in scenario A with the advantage \<open>7/4 * 2^127\<close> (a float32
  value) on the first transition, the ratio \<open>3/2\<close> exceeds \<open>1 + epsilon\<close>, but the
  bare product and the clipped product both overflow to \<open>+inf\<close>, so the clipped
  objective equals the bare objective and is not strictly below it.
\<close>

theorem clipped_objective_not_strict:
  "f32_exp (f32_sub (Finite (ln (3 / 2))) (Finite 0)) = Finite (3 / 2)
   \<and> f32_lt (overflow (1 + 1 / 5)) (Finite (3 / 2))
   \<and> objective_func_f32 counter_split scenario_A_f32 () () 0 scenario_A_f32_batch
       [Finite (7 / 4 * 2 ^ 127), Finite (- 1)] (1 / 5)
     = Inr ([PInf, Finite (- 4 / 5)], ((), [Finite (ln (3 / 2)), Finite (ln (1 / 2))], ()))
   \<and> f32_mul (Finite (7 / 4 * 2 ^ 127)) (Finite (3 / 2)) = PInf
   \<and> \<not> f32_lt PInf PInf"
  by (simp add: scenario_A_f32_defs)

text \<open>
  C8. Whatever \<open>objective_func\<close> returns: an error is passed on; otherwise, without a
  regularizer the final loss is the bare loss, the negative mean of the objective;
  with a regularizer the final loss is the bare loss plus the mean of the
  regularizer's penalty array, and it is the bare loss itself when that array is
  non-empty and zero everywhere.
\<close>

theorem final_loss_regularizer:
  "case objective_func split self params state rng tb Adv eps of
     Inl e \<Rightarrow>
       PPOClip_loss_func split self params state rng tb Adv eps reg_hparams = Inl e
   | Inr (objective, (dist_params, log_pi, state_new)) \<Rightarrow>
       (regularizer self = None \<longrightarrow>
          PPOClip_loss_func split self params state rng tb Adv eps reg_hparams =
            Inr (- jnp_mean objective,
              (- jnp_mean objective, - jnp_mean objective, dist_params, log_pi, state_new)))
     \<and> (\<forall>reg. regularizer self = Some reg \<longrightarrow>
          PPOClip_loss_func split self params state rng tb Adv eps reg_hparams =
            Inr (- jnp_mean objective + jnp_mean (reg_apply_func reg dist_params reg_hparams),
              (- jnp_mean objective + jnp_mean (reg_apply_func reg dist_params reg_hparams),
               - jnp_mean objective, dist_params, log_pi, state_new))
        \<and> (reg_apply_func reg dist_params reg_hparams \<noteq> [] \<and>
             (\<forall>x \<in> set (reg_apply_func reg dist_params reg_hparams). x = 0) \<longrightarrow>
             PPOClip_loss_func split self params state rng tb Adv eps reg_hparams =
               Inr (- jnp_mean objective,
                 (- jnp_mean objective, - jnp_mean objective, dist_params, log_pi,
                  state_new))))"
  by (auto simp add: PPOClip_loss_func_def Let_def jnp_mean_zeros split: sum.splits)

text \<open>
  Scenario A without a regularizer and with the zero regularizer: the final loss
  is the bare loss \<open>-1/5\<close> in both. With three advantages for two transitions
  \<open>objective_func\<close> raises \<open>TypeError\<close>, and so does \<open>loss_func\<close>.
\<close>

theorem scenario_A_final_loss:
  "objective_func counter_split scenario_A () () 0 scenario_A_batch [1, - 1] (1 / 5)
     = Inr ([6 / 5, - 4 / 5], ((), [ln (3 / 2), ln (1 / 2)], ()))
   \<and> regularizer scenario_A = None
   \<and> PPOClip_loss_func counter_split scenario_A () () 0 scenario_A_batch [1, - 1] (1 / 5)
       Map.empty
     = Inr (- 1 / 5, (- 1 / 5, - 1 / 5, (), [ln (3 / 2), ln (1 / 2)], ()))
   \<and> regularizer scenario_A_regularized = Some zero_regularizer
   \<and> reg_apply_func zero_regularizer () Map.empty = [0, 0]
   \<and> PPOClip_loss_func counter_split scenario_A_regularized () () 0 scenario_A_batch
       [1, - 1] (1 / 5) Map.empty
     = Inr (- 1 / 5, (- 1 / 5, - 1 / 5, (), [ln (3 / 2), ln (1 / 2)], ()))
   \<and> objective_func counter_split scenario_A () () 0 scenario_A_batch [1, - 1, 1] (1 / 5)
     = Inl TypeError
   \<and> PPOClip_loss_func counter_split scenario_A () () 0 scenario_A_batch [1, - 1, 1]
       (1 / 5) Map.empty
     = Inl TypeError"
  using final_loss_regularizer [where split = counter_split and self = scenario_A
      and params = "()" and state = "()" and rng = 0 and tb = scenario_A_batch
      and Adv = "[1, - 1]" and eps = "1 / 5" and reg_hparams = Map.empty]
    final_loss_regularizer [where split = counter_split and self = scenario_A_regularized
      and params = "()" and state = "()" and rng = 0 and tb = scenario_A_batch
      and Adv = "[1, - 1]" and eps = "1 / 5" and reg_hparams = Map.empty]
    final_loss_regularizer [where split = counter_split and self = scenario_A
      and params = "()" and state = "()" and rng = 0 and tb = scenario_A_batch
      and Adv = "[1, - 1, 1]" and eps = "1 / 5" and reg_hparams = Map.empty]
  by (simp add: PPOClip_loss_func_def objective_func_def scenario_A_def
      scenario_A_regularized_def zero_regularizer_def
      scenario_A_pi_def scenario_A_batch_def counter_split_def PRNGSequence_def next_rng_def
      jnp_sub_def jnp_mul_def jnp_minimum_def broadcast2_def jnp_exp_def jnp_clip_def
      clip_def jnp_mean_def Let_def)



text \<open>
  C10, as amended. With a regularizer attached whose \<open>hyperparams\<close> attribute stores
  a reference to a dict, reading \<open>PPOClip.hyperparams\<close> returns that very reference
  (no copy), and afterwards the regularizer's own dict holds \<open>epsilon\<close> under the key
  \<open>'epsilon'\<close> besides its former entries; the store stays well-formed, so this holds
  for every read.
\<close>

theorem hyperparams_read_mutates_stored_dict:
  assumes "regularizer self = Some reg"
    and "hyperparams reg = Stored a"
    and "dicts h a = Some d"
    and "heap_ok h"
  shows "fst (PPOClip_hyperparams self h) = a
       \<and> regularizer_hyperparams reg (snd (PPOClip_hyperparams self h)) =
           Some (d(''epsilon'' \<mapsto> epsilon self))
       \<and> dicts (snd (PPOClip_hyperparams self h)) (fst (PPOClip_hyperparams self h)) =
           regularizer_hyperparams reg (snd (PPOClip_hyperparams self h))
       \<and> heap_ok (snd (PPOClip_hyperparams self h))"
proof -
  have below: "b < fresh h" if "dicts h b = Some e" for b e
    using that assms(4) by (auto simp add: heap_ok_def)
  have fresh: "a \<noteq> fresh h"
    using below [OF assms(3)] by simp
  have result: "PPOClip_hyperparams self h =
      (a, \<lparr>dicts = (dicts h)(fresh h \<mapsto> Map.empty, a \<mapsto> d(''epsilon'' \<mapsto> epsilon self)),
           fresh = Suc (fresh h)\<rparr>)"
    using assms(1,2,3) fresh
    by (simp add: PPOClip_hyperparams_def new_dict_def getattr_hyperparams_def
        dict_setitem_def Let_def)
  have "heap_ok (snd (PPOClip_hyperparams self h))"
    unfolding result heap_ok_def
    using below [OF assms(3)]
    by (auto simp add: less_SucI below split: if_splits)
  then show ?thesis
    using assms(2) by (simp add: result regularizer_hyperparams_def)
qed

text \<open>
  A regularizer that stores \<open>hyperparams = {'beta': 1/100}\<close>: before the read its
  dict has no key \<open>'epsilon'\<close>; after one read of \<open>PPOClip.hyperparams\<close> it maps
  \<open>'epsilon'\<close> to \<open>1/5\<close> and still \<open>'beta'\<close> to \<open>1/100\<close>.
\<close>

theorem scenario_hyperparams_read:
  "regularizer scenario_A_regularized = Some zero_regularizer
   \<and> hyperparams zero_regularizer = Stored 0
   \<and> dicts scenario_heap 0 = Some [''beta'' \<mapsto> 1 / 100]
   \<and> heap_ok scenario_heap
   \<and> regularizer_hyperparams zero_regularizer scenario_heap = Some [''beta'' \<mapsto> 1 / 100]
   \<and> fst (PPOClip_hyperparams scenario_A_regularized scenario_heap) = 0
   \<and> regularizer_hyperparams zero_regularizer
        (snd (PPOClip_hyperparams scenario_A_regularized scenario_heap))
      = Some [''beta'' \<mapsto> 1 / 100, ''epsilon'' \<mapsto> 1 / 5]"
  using hyperparams_read_mutates_stored_dict [where self = scenario_A_regularized
      and reg = zero_regularizer and a = 0 and h = scenario_heap
      and d = "[''beta'' \<mapsto> 1 / 100]"]
  by (simp add: scenario_A_regularized_def scenario_A_def zero_regularizer_def
      scenario_heap_def heap_ok_def regularizer_hyperparams_def)

text \<open>
  C10 as stated fails for a regularizer whose \<open>hyperparams\<close> is a property that
  builds a new dict: the read of \<open>PPOClip.hyperparams\<close> returns that new dict (at the
  fresh address \<open>2\<close>, after the default \<open>{}\<close> at \<open>1\<close>) with \<open>'epsilon'\<close> in it, while
  a later read of the regularizer's \<open>hyperparams\<close> shows \<open>{'beta': 1/100}\<close> without
  \<open>'epsilon'\<close>, and no dict that existed before has changed.
\<close>

theorem hyperparams_read_leaves_property:
  "regularizer scenario_A_property = Some property_regularizer
   \<and> hyperparams property_regularizer = Computed [''beta'' \<mapsto> 1 / 100]
   \<and> fst (PPOClip_hyperparams scenario_A_property scenario_heap) = 2
   \<and> dicts (snd (PPOClip_hyperparams scenario_A_property scenario_heap)) 2
      = Some [''beta'' \<mapsto> 1 / 100, ''epsilon'' \<mapsto> 1 / 5]
   \<and> regularizer_hyperparams property_regularizer
        (snd (PPOClip_hyperparams scenario_A_property scenario_heap))
      = Some [''beta'' \<mapsto> 1 / 100]
   \<and> [''beta'' \<mapsto> 1 / 100 :: real] ''epsilon'' = None
   \<and> dicts (snd (PPOClip_hyperparams scenario_A_property scenario_heap)) 0
      = dicts scenario_heap 0"
  by (simp add: scenario_A_property_def property_regularizer_def scenario_A_def
      zero_regularizer_def scenario_heap_def regularizer_hyperparams_def
      PPOClip_hyperparams_def new_dict_def getattr_hyperparams_def dict_setitem_def Let_def)

section \<open>Properties of the Q-learning objective\<close>

lemma foldl_max_Max: "foldl max (x::real) xs = Max (set (x # xs))"
proof -
  have "(\<lambda>a b. max b a) = (max :: real \<Rightarrow> real \<Rightarrow> real)"
    by (intro ext) (simp add: max.commute)
  then show ?thesis
    by (simp only: Max.set_eq_fold foldl_conv_fold)
qed

lemma row_max_Max: "r \<noteq> [] \<Longrightarrow> row_max r = Inr (Max (set r))"
  by (cases r) (simp_all add: foldl_max_Max del: set_simps)

lemma jnp_max_axis1_rows:
  "\<forall>r \<in> set rows. r \<noteq> [] \<Longrightarrow> jnp_max_axis1 rows = Inr (map (\<lambda>r. Max (set r)) rows)"
  by (induction rows) (simp_all add: row_max_Max)

text \<open>
  With one \<open>Rn\<close> and one \<open>In\<close> per transition and at least one action, \<open>target\<close>
  raises nothing and computes \<open>f(Rn + In f_inv(max_a Q_targ(S_next, a)))\<close> for each
  transition.
\<close>

lemma target_elementwise:
  assumes vt: "value_transform self = (f, f_inv)"
    and qs: "fst (apply_func_type2 (q_targ self) params state rng S_next_b False) = Q_s_next"
    and lr: "length Rn_b = length Q_s_next"
    and li: "length In_b = length Q_s_next"
    and rows: "\<forall>r \<in> set Q_s_next. r \<noteq> []"
  shows "target self params state rng Rn_b In_b S_next_b =
           Inr (map (\<lambda>i. f (Rn_b ! i + In_b ! i * f_inv (Max (set (Q_s_next ! i)))))
                  [0..<length Q_s_next])"
proof -
  let ?m = "map (\<lambda>r. Max (set r)) Q_s_next"
  let ?boot = "map2 (\<lambda>x y. x * y) In_b (map f_inv ?m)"
  have unfold: "target self params state rng Rn_b In_b S_next_b =
      bind_result (jnp_max_axis1 Q_s_next) (\<lambda>Q_sa_next.
           bind_result (jnp_mul In_b (map f_inv Q_sa_next)) (\<lambda>boot.
             bind_result (jnp_add Rn_b boot) (\<lambda>g. Inr (map f g))))"
    using vt qs unfolding target_def by (simp add: Let_def case_prod_beta)
  have boot: "jnp_mul In_b (map f_inv ?m) = Inr ?boot"
    using li by (simp add: jnp_mul_def broadcast2_same_length)
  have add: "jnp_add Rn_b ?boot = Inr (map2 (\<lambda>x y. x + y) Rn_b ?boot)"
    using lr li by (simp add: jnp_add_def broadcast2_same_length)
  have pointwise: "map f (map2 (\<lambda>x y. x + y) Rn_b ?boot) =
      map (\<lambda>i. f (Rn_b ! i + In_b ! i * f_inv (Max (set (Q_s_next ! i))))) [0..<length Q_s_next]"
    using lr li by (intro nth_equalityI) simp_all
  show ?thesis
    unfolding unfold
    by (simp only: jnp_max_axis1_rows [OF rows] bind_result_Inr boot add pointwise)
qed

text \<open>
  C2. With the identity pair as value transform, one \<open>Rn\<close> and one \<open>In\<close> per
  transition and one target-network value per action (at least one action), the
  target is \<open>Rn + In max_a Q_targ(S_next, a)\<close> for each transition.
\<close>

theorem target_identity_transform:
  assumes "value_transform self = (\<lambda>x. x, \<lambda>x. x)"
    and "fst (apply_func_type2 (q_targ self) params state rng S_next_b False) = Q_s_next"
    and "length Rn_b = length Q_s_next"
    and "length In_b = length Q_s_next"
    and "\<forall>r \<in> set Q_s_next. r \<noteq> []"
  shows "target self params state rng Rn_b In_b S_next_b =
           Inr (map (\<lambda>i. Rn_b ! i + In_b ! i * Max (set (Q_s_next ! i)))
                  [0..<length Q_s_next])"
  using target_elementwise [OF assms] .

text \<open>
  Scenario B of the spec: \<open>Q_targ(S_next) = [1, 5, 2]\<close>, \<open>Rn = 1\<close>, \<open>In = 9/10\<close> and
  no value transform configured give \<open>G = 1 + 9/10 * 5 = 11/2\<close>.
\<close>

theorem scenario_B_target:
  "value_transform scenario_B = (\<lambda>x. x, \<lambda>x. x)
   \<and> fst (apply_func_type2 (q_targ scenario_B) () () 0 () False) = [[1, 5, 2]]
   \<and> Max (set [1, 5, 2 :: real]) = 5
   \<and> target scenario_B () () 0 [1] [9 / 10] () = Inr [11 / 2]"
  using target_identity_transform [where self = scenario_B and params = "()"
      and state = "()" and rng = 0 and S_next_b = "()" and Q_s_next = "[[1, 5, 2]]"
      and Rn_b = "[1]" and In_b = "[9 / 10]"]
  by (simp add: scenario_B_def scenario_B_q_def)

text \<open>
  On float32 values, with one \<open>Rn\<close> and one \<open>In\<close> per transition and at least one
  action, \<open>target\<close> raises nothing and computes
  \<open>f(Rn + In * f_inv(max_a Q_targ(S_next, a)))\<close> for each transition.
\<close>

lemma jnp_max_axis1_f32_length:
  "jnp_max_axis1_f32 rows = Inr ms \<Longrightarrow> length ms = length rows"
proof (induction rows arbitrary: ms)
  case Nil
  then show ?case by simp
next
  case (Cons r rs)
  then show ?case
    by (cases "row_max_f32 r"; cases "jnp_max_axis1_f32 rs") auto
qed

lemma target_f32_elementwise:
  assumes vt: "value_transform self = (f, f_inv)"
    and qs: "fst (apply_func_type2 (q_targ self) params state rng S_next_b False) = Q_s_next"
    and mx: "jnp_max_axis1_f32 Q_s_next = Inr Q_sa_next"
    and lr: "length Rn_b = length Q_s_next"
    and li: "length In_b = length Q_s_next"
  shows "target_f32 self params state rng Rn_b In_b S_next_b =
           Inr (map (\<lambda>i. f (f32_add (Rn_b ! i) (f32_mul (In_b ! i) (f_inv (Q_sa_next ! i)))))
                  [0..<length Q_s_next])"
proof -
  let ?boot = "map2 f32_mul In_b (map f_inv Q_sa_next)"
  have lq: "length Q_sa_next = length Q_s_next"
    using mx by (rule jnp_max_axis1_f32_length)
  have unfold: "target_f32 self params state rng Rn_b In_b S_next_b =
      bind_result (jnp_max_axis1_f32 Q_s_next) (\<lambda>Q_sa_next.
           bind_result (jnp_mul_f32 In_b (map f_inv Q_sa_next)) (\<lambda>boot.
             bind_result (jnp_add_f32 Rn_b boot) (\<lambda>g. Inr (map f g))))"
    using vt qs unfolding target_f32_def by (simp add: Let_def case_prod_beta)
  have boot: "jnp_mul_f32 In_b (map f_inv Q_sa_next) = Inr ?boot"
    using li lq by (simp add: jnp_mul_f32_def broadcast2_same_length)
  have add: "jnp_add_f32 Rn_b ?boot = Inr (map2 f32_add Rn_b ?boot)"
    using lr li lq by (simp add: jnp_add_f32_def broadcast2_same_length)
  have pointwise: "map f (map2 f32_add Rn_b ?boot) =
      map (\<lambda>i. f (f32_add (Rn_b ! i) (f32_mul (In_b ! i) (f_inv (Q_sa_next ! i)))))
        [0..<length Q_s_next]"
    using lr li lq by (intro nth_equalityI) simp_all
  show ?thesis
    unfolding unfold by (simp only: mx bind_result_Inr boot add pointwise)
qed

lemma f32_add_zero: "f32_ok r \<Longrightarrow> f32_add r (Finite 0) = r"
  by (cases r) (simp_all add: f32_ok_def overflow_in_range)

lemma overflow_zero: "overflow 0 = Finite 0"
  using f32_limit_pos by (simp add: overflow_in_range)

text \<open>
  C4, as amended. With one \<open>Rn\<close> and one \<open>In\<close> per transition and at least one
  action, \<open>target\<close> raises nothing, whatever \<open>In\<close> holds; it multiplies \<open>In\<close> with
  the bootstrap estimate for every transition alike, and where \<open>In\<close> is \<open>0\<close> and
  \<open>f_inv(Q_sa_next)\<close> is finite the target is \<open>f(Rn)\<close> exactly.
\<close>

theorem target_terminal_finite_bootstrap:
  assumes "value_transform self = (f, f_inv)"
    and "fst (apply_func_type2 (q_targ self) params state rng S_next_b False) = Q_s_next"
    and "jnp_max_axis1_f32 Q_s_next = Inr Q_sa_next"
    and "length Rn_b = length Q_s_next"
    and "length In_b = length Q_s_next"
  shows "\<exists>G. target_f32 self params state rng Rn_b In_b S_next_b = Inr G
           \<and> length G = length Q_s_next
           \<and> (\<forall>i < length Q_s_next.
                 G ! i = f (f32_add (Rn_b ! i) (f32_mul (In_b ! i) (f_inv (Q_sa_next ! i))))
               \<and> (In_b ! i = Finite 0 \<and> f32_ok (Rn_b ! i) \<and>
                  (\<exists>y. f_inv (Q_sa_next ! i) = Finite y) \<longrightarrow>
                  G ! i = f (Rn_b ! i)))"
  unfolding target_f32_elementwise [OF assms]
  by (auto simp add: f32_add_zero overflow_zero)

lemmas target_f32_defs =
  target_f32_def halving_scenario_def overflow_scenario_def infinite_scenario_def
  halving_def f32_q_def jnp_mul_f32_def jnp_add_f32_def broadcast2_def Let_def f32_eval
  f32_ok_def

text \<open>
  A terminal transition with target-network values \<open>[1, 5, 2]\<close> under the halving
  transform: \<open>f_inv(5) = 10\<close> is finite and the target is \<open>f(Rn) = 1/2\<close>.
\<close>

theorem scenario_terminal_target_f32:
  "value_transform halving_scenario = halving
   \<and> fst (apply_func_type2 (q_targ halving_scenario) () () 0 () False)
     = [[Finite 1, Finite 5, Finite 2]]
   \<and> jnp_max_axis1_f32 [[Finite 1, Finite 5, Finite 2]] = Inr [Finite 5]
   \<and> snd halving (Finite 5) = Finite 10
   \<and> f32_ok (Finite 1)
   \<and> fst halving (Finite 1) = Finite (1 / 2)
   \<and> target_f32 halving_scenario () () 0 [Finite 1] [Finite 0] () = Inr [Finite (1 / 2)]"
  using target_terminal_finite_bootstrap [where self = halving_scenario and params = "()"
      and state = "()" and rng = 0 and S_next_b = "()"
      and Q_s_next = "[[Finite 1, Finite 5, Finite 2]]" and Q_sa_next = "[Finite 5]"
      and Rn_b = "[Finite 1]" and In_b = "[Finite 0]"
      and f = "fst halving" and f_inv = "snd halving"]
  by (simp add: target_f32_defs)

text \<open>
  C4 as stated fails: at a terminal transition (\<open>In = 0\<close>, \<open>Rn = 1\<close>) the target is
  \<open>nan\<close>, not \<open>f(Rn)\<close>, when the target network's largest value is \<open>+inf\<close>, and
  also when it is the float32 value \<open>2^127\<close> and \<open>f_inv\<close> doubles it: the product
  \<open>0 * inf\<close> is \<open>nan\<close>.
\<close>

theorem target_terminal_nonfinite_bootstrap:
  "fst (apply_func_type2 (q_targ infinite_scenario) () () 0 () False)
     = [[Finite 1, PInf, Finite 2]]
   \<and> fst (value_transform infinite_scenario) (Finite 1) = Finite 1
   \<and> target_f32 infinite_scenario () () 0 [Finite 1] [Finite 0] () = Inr [NaN]
   \<and> fst (apply_func_type2 (q_targ overflow_scenario) () () 0 () False)
     = [[Finite (2 ^ 127)]]
   \<and> f32_ok (Finite (2 ^ 127))
   \<and> fst (value_transform overflow_scenario) (Finite 1) = Finite (1 / 2)
   \<and> target_f32 overflow_scenario () () 0 [Finite 1] [Finite 0] () = Inr [NaN]"
  by (simp add: target_f32_defs)

text \<open>
  The keys of the two draws, and what the two entry points compute with them.
\<close>

lemma QLearning_loss_func_keys:
  "QLearning_loss_func split self params target_params state rng tb =
     bind_result
       (target self target_params state (first_key split rng) (Rn tb) (In tb) (S_next tb))
       (\<lambda>G. Inr (loss_function self G
                    (fst (apply_func_type1 (q self) params state (second_key split rng)
                            (S tb) (A tb) True)),
                  (loss_function self G
                     (fst (apply_func_type1 (q self) params state (second_key split rng)
                             (S tb) (A tb) True)),
                   G,
                   fst (apply_func_type1 (q self) params state (second_key split rng)
                          (S tb) (A tb) True),
                   S tb, A tb,
                   snd (apply_func_type1 (q self) params state (second_key split rng)
                          (S tb) (A tb) True))))"
  by (simp add: QLearning_loss_func_def first_key_def second_key_def Let_def
      case_prod_beta)

lemma td_error_func_keys:
  "td_error_func split self params target_params state rng tb =
     bind_result
       (target self target_params state (first_key split rng) (Rn tb) (In tb) (S_next tb))
       (\<lambda>G. jnp_sub G
               (fst (apply_func_type1 (q self) params state (second_key split rng)
                       (S tb) (A tb) False)))"
  by (simp add: td_error_func_def first_key_def second_key_def Let_def case_prod_beta)

text \<open>
  C3. On the same \<open>(params, target_params, state, rng, transition_batch)\<close>: when
  \<open>loss_func\<close> returns, its \<open>G\<close> is the value of \<open>target\<close> on the target parameters
  with the first key drawn from \<open>rng\<close>, and \<open>td_error\<close> is that same \<open>G\<close> minus the
  main q-function's value, evaluated with the second key; when \<open>loss_func\<close> raises,
  \<open>td_error\<close> raises the same error.
\<close>

theorem td_error_same_target:
  "(\<forall>loss l G Q s a state_new.
      QLearning_loss_func split self params target_params state rng tb =
        Inr (loss, (l, G, Q, s, a, state_new)) \<longrightarrow>
      target self target_params state (first_key split rng) (Rn tb) (In tb) (S_next tb)
        = Inr G
      \<and> td_error_func split self params target_params state rng tb =
          jnp_sub G
            (fst (apply_func_type1 (q self) params state (second_key split rng)
                    (S tb) (A tb) False)))
   \<and> (\<forall>e. QLearning_loss_func split self params target_params state rng tb = Inl e \<longrightarrow>
          td_error_func split self params target_params state rng tb = Inl e)"
  unfolding QLearning_loss_func_keys td_error_func_keys
  by (cases "target self target_params state (first_key split rng) (Rn tb) (In tb)
        (S_next tb)") simp_all

text \<open>
  Scenario B: \<open>loss_func\<close> returns \<open>G = [11/2]\<close> and \<open>td_error\<close> is
  \<open>[11/2] - [3] = [5/2]\<close>. On the batch that is not well-shaped both raise
  \<open>TypeError\<close>.
\<close>

theorem scenario_B_td_error:
  "QLearning_loss_func counter_split scenario_B () () () 0 scenario_B_batch
     = Inr (49 / 4, (49 / 4, [11 / 2], [2], (), (), ()))
   \<and> target scenario_B () () (first_key counter_split 0) (Rn scenario_B_batch)
       (In scenario_B_batch) (S_next scenario_B_batch) = Inr [11 / 2]
   \<and> td_error_func counter_split scenario_B () () () 0 scenario_B_batch = Inr [5 / 2]
   \<and> QLearning_loss_func counter_split scenario_B () () () 0 mismatched_batch
     = Inl TypeError
   \<and> td_error_func counter_split scenario_B () () () 0 mismatched_batch = Inl TypeError"
  using td_error_same_target [where split = counter_split and self = scenario_B
      and params = "()" and target_params = "()" and state = "()" and rng = 0
      and tb = scenario_B_batch]
    td_error_same_target [where split = counter_split and self = scenario_B
      and params = "()" and target_params = "()" and state = "()" and rng = 0
      and tb = mismatched_batch]
  by (simp add: QLearning_loss_func_def td_error_func_def target_def scenario_B_def
      scenario_B_q_def scenario_B_batch_def mismatched_batch_def counter_split_def
      PRNGSequence_def next_rng_def first_key_def second_key_def squared_error_def
      jnp_mean_def jnp_sub_def jnp_mul_def jnp_add_def broadcast2_def Let_def
      power2_eq_square)

lemma jnp_sub_injective:
  assumes "length ys = length xs"
    and "length zs = length xs"
    and "jnp_sub xs ys = jnp_sub xs zs"
  shows "ys = zs"
proof (rule nth_equalityI)
  show "length ys = length zs"
    using assms(1,2) by simp
next
  fix i
  assume i: "i < length ys"
  have "map2 (\<lambda>x y. x - y) xs ys = map2 (\<lambda>x y. x - y) xs zs"
    using assms by (simp add: jnp_sub_def broadcast2_same_length)
  then have "map2 (\<lambda>x y. x - y) xs ys ! i = map2 (\<lambda>x y. x - y) xs zs ! i"
    by simp
  then show "ys ! i = zs ! i"
    using i assms(1,2) by simp
qed

text \<open>
  C9. When \<open>loss_func\<close> returns \<open>G\<close> and \<open>Q\<close>: its \<open>Q\<close> is the main q-function at
  \<open>(S, A)\<close> with \<open>is_training = True\<close>, while \<open>td_error\<close> subtracts from the same \<open>G\<close>
  the main q-function at \<open>(S, A)\<close> with \<open>is_training = False\<close> (same parameters,
  state and key). So when the two modes give different outputs, the \<open>Q\<close> subtracted
  by \<open>td_error\<close> is not the \<open>Q\<close> of the loss, and with one value per transition
  \<open>td_error\<close> is not \<open>G - Q\<close> for the \<open>Q\<close> of the loss.
\<close>

theorem td_error_evaluation_mode:
  assumes "QLearning_loss_func split self params target_params state rng tb =
             Inr (loss, (l, G, Q, s, a, state_new))"
  shows "Q = fst (apply_func_type1 (q self) params state (second_key split rng)
                    (S tb) (A tb) True)
       \<and> td_error_func split self params target_params state rng tb =
           jnp_sub G
             (fst (apply_func_type1 (q self) params state (second_key split rng)
                     (S tb) (A tb) False))
       \<and> (fst (apply_func_type1 (q self) params state (second_key split rng)
                 (S tb) (A tb) True)
            \<noteq> fst (apply_func_type1 (q self) params state (second_key split rng)
                 (S tb) (A tb) False) \<longrightarrow>
            fst (apply_func_type1 (q self) params state (second_key split rng)
                 (S tb) (A tb) False) \<noteq> Q
          \<and> (length Q = length G \<and>
              length (fst (apply_func_type1 (q self) params state (second_key split rng)
                       (S tb) (A tb) False)) = length G \<longrightarrow>
              td_error_func split self params target_params state rng tb \<noteq> jnp_sub G Q))"
proof -
  let ?Q_train = "fst (apply_func_type1 (q self) params state (second_key split rng)
                    (S tb) (A tb) True)"
  let ?Q_eval = "fst (apply_func_type1 (q self) params state (second_key split rng)
                    (S tb) (A tb) False)"
  obtain G' where G': "target self target_params state (first_key split rng) (Rn tb)
      (In tb) (S_next tb) = Inr G'"
    using assms unfolding QLearning_loss_func_keys
    by (cases "target self target_params state (first_key split rng) (Rn tb) (In tb)
          (S_next tb)") simp_all
  have G: "G' = G" and Q: "Q = ?Q_train"
    using assms unfolding QLearning_loss_func_keys G' by auto
  have td: "td_error_func split self params target_params state rng tb = jnp_sub G ?Q_eval"
    unfolding td_error_func_keys G' by (simp add: G)
  have "td_error_func split self params target_params state rng tb \<noteq> jnp_sub G Q"
    if "?Q_train \<noteq> ?Q_eval" "length Q = length G" "length ?Q_eval = length G"
  proof
    assume "td_error_func split self params target_params state rng tb = jnp_sub G Q"
    then have "jnp_sub G ?Q_eval = jnp_sub G Q"
      by (simp add: td)
    then have "?Q_eval = Q"
      using that(2,3) by (intro jnp_sub_injective [where xs = G]) simp_all
    then show False
      using that(1) Q by simp
  qed
  then show ?thesis
    using Q td by auto
qed

text \<open>
  Scenario B: the q-function is \<open>[2]\<close> in training mode and \<open>[3]\<close> otherwise, so
  the loss uses \<open>Q = [2]\<close> while \<open>td_error\<close> is \<open>[11/2] - [3] = [5/2]\<close>, not
  \<open>[11/2] - [2] = [7/2]\<close>.
\<close>

theorem scenario_B_evaluation_mode:
  "QLearning_loss_func counter_split scenario_B () () () 0 scenario_B_batch
     = Inr (49 / 4, (49 / 4, [11 / 2], [2], (), (), ()))
   \<and> fst (apply_func_type1 (q scenario_B) () () (second_key counter_split 0)
            (S scenario_B_batch) (A scenario_B_batch) True) = [2]
   \<and> fst (apply_func_type1 (q scenario_B) () () (second_key counter_split 0)
            (S scenario_B_batch) (A scenario_B_batch) False) = [3]
   \<and> td_error_func counter_split scenario_B () () () 0 scenario_B_batch = Inr [5 / 2]
   \<and> jnp_sub [11 / 2] [2] = Inr [7 / 2]"
  using td_error_evaluation_mode [where split = counter_split and self = scenario_B
      and params = "()" and target_params = "()" and state = "()" and rng = 0
      and tb = scenario_B_batch and loss = "49 / 4" and l = "49 / 4" and G = "[11 / 2]"
      and Q = "[2]" and s = "()" and a = "()" and state_new = "()"]
  by (simp add: QLearning_loss_func_def td_error_func_def target_def scenario_B_def
      scenario_B_q_def scenario_B_batch_def counter_split_def
      PRNGSequence_def next_rng_def first_key_def second_key_def squared_error_def
      jnp_mean_def jnp_sub_def jnp_mul_def jnp_add_def broadcast2_def Let_def
      power2_eq_square)

text \<open>
  C6. Constructing a \<open>QLearning\<close> object for a q-function whose action space is not
  discrete yields \<open>NotImplementedError\<close>, whatever the other arguments are and
  without any of them being evaluated; for a discrete action space the
  construction yields an object for that q-function.
\<close>

theorem QLearning_init_requires_discrete:
  "(\<not> action_space_is_discrete qf \<longrightarrow>
      QLearning_init huber qf q_targ_arg loss_function_arg value_transform_arg =
        Inl NotImplementedError)
   \<and> (action_space_is_discrete qf \<longrightarrow>
        (\<exists>self. QLearning_init huber qf q_targ_arg loss_function_arg value_transform_arg =
                  Inr self
               \<and> q self = qf))"
  by (simp add: QLearning_init_def BaseTD_init_def)

text \<open>
  Scenario C of the spec: the continuous q-function is refused, the discrete one of
  scenario B is accepted.
\<close>

theorem scenario_C_QLearning_init:
  "\<not> action_space_is_discrete continuous_q
   \<and> QLearning_init squared_error continuous_q None None None = Inl NotImplementedError
   \<and> action_space_is_discrete scenario_B_q
   \<and> QLearning_init squared_error scenario_B_q None None None = Inr scenario_B"
  using QLearning_init_requires_discrete [where qf = continuous_q and huber = squared_error
      and q_targ_arg = None and loss_function_arg = None and value_transform_arg = None]
    QLearning_init_requires_discrete [where qf = scenario_B_q and huber = squared_error
      and q_targ_arg = None and loss_function_arg = None and value_transform_arg = None]
  by (simp add: QLearning_init_def BaseTD_init_def continuous_q_def scenario_B_q_def
      scenario_B_def)

end
